theory Spec2Isabelle
  imports Complex_Main
begin

section \<open>JavaScript values\<close>

text \<open>
  The webhook payload is the JSON body of a request, so the values the program reads are
  JSON values, plus \<open>undefined\<close> (the value of a missing property) and \<open>NaN\<close>.
  Numbers are rationals: every finite JSON number is one. A string is a list of 8-bit
  characters, standing for the UTF-8 bytes of the text. An object is the list of its
  properties; the first binding of a name is the one that is read.
\<close>

datatype jsval =
    Undefined
  | Null
  | Bool bool
  | Num rat
  | NaN
  | Str string
  | Arr "jsval list"
  | Obj "(string \<times> jsval) list"

datatype error = TypeError | Error string

text \<open>\<open>!v\<close> is \<open>\<not> truthy v\<close>: the falsy values are undefined, null, false, 0, NaN and "".\<close>

fun truthy :: "jsval \<Rightarrow> bool" where
  "truthy Undefined = False"
| "truthy Null = False"
| "truthy (Bool b) = b"
| "truthy (Num n) = (n \<noteq> 0)"
| "truthy NaN = False"
| "truthy (Str s) = (s \<noteq> [])"
| "truthy (Arr xs) = True"
| "truthy (Obj ps) = True"

text \<open>
  \<open>member v k\<close> is the property read \<open>v.k\<close> on a value that is neither undefined nor null.
  Apart from \<open>length\<close>, none of the property names the program reads exists on an array,
  a string, a number or a boolean, so such a read is undefined there.
\<close>

fun member :: "jsval \<Rightarrow> string \<Rightarrow> jsval" where
  "member (Obj ps) k = (case map_of ps k of None \<Rightarrow> Undefined | Some v \<Rightarrow> v)"
| "member (Arr xs) k = (if k = ''length'' then Num (of_nat (length xs)) else Undefined)"
| "member (Str s) k = (if k = ''length'' then Num (of_nat (length s)) else Undefined)"
| "member v k = Undefined"

text \<open>\<open>getp v k\<close> is \<open>v.k\<close> on any value: reading a property of undefined or null throws.\<close>

fun getp :: "jsval \<Rightarrow> string \<Rightarrow> error + jsval" where
  "getp Undefined k = Inl TypeError"
| "getp Null k = Inl TypeError"
| "getp v k = Inr (member v k)"

text \<open>\<open>getp_opt v k\<close> is the optional chain \<open>v?.k\<close>.\<close>

fun getp_opt :: "jsval \<Rightarrow> string \<Rightarrow> jsval" where
  "getp_opt Undefined k = Undefined"
| "getp_opt Null k = Undefined"
| "getp_opt v k = member v k"

fun isArray :: "jsval \<Rightarrow> bool" where
  "isArray (Arr xs) = True"
| "isArray v = False"

text \<open>\<open>arrayLength a\<close> is \<open>a.length\<close> and \<open>index0 a\<close> is \<open>a[0]\<close>, both read only after
  \<open>Array.isArray(a)\<close> has held.\<close>

fun arrayLength :: "jsval \<Rightarrow> nat" where
  "arrayLength (Arr xs) = length xs"
| "arrayLength v = 0"

fun index0 :: "jsval \<Rightarrow> jsval" where
  "index0 (Arr (x # xs)) = x"
| "index0 v = Undefined"

text \<open>\<open>a || b\<close> on values.\<close>

definition js_or :: "jsval \<Rightarrow> jsval \<Rightarrow> jsval" where
  "js_or a b = (if truthy a then a else b)"

definition bindE :: "error + 'a \<Rightarrow> ('a \<Rightarrow> error + 'b) \<Rightarrow> error + 'b" where
  "bindE m f = (case m of Inl e \<Rightarrow> Inl e | Inr v \<Rightarrow> f v)"

section \<open>The event parser\<close>

text \<open>
  The repository holds two files that define \<open>parseWebhookEvent\<close>. The one in
  \<^verbatim>\<open>src/unnamed/part_001\<close> reads both envelope shapes and the edited-message variant; it
  is \<open>parseWebhookEvent\<close> below. The one in \<^verbatim>\<open>src/utils/messageParser.js\<close> reads the
  messaging list only and requires a timestamp; it is \<open>parseWebhookEvent_strict\<close>.
  Debug logging inside the parsers is left out: no result depends on it.
\<close>

record parsedMessage =
  senderId :: jsval
  messageText :: jsval
  hasAttachments :: bool
  timestamp :: jsval
  messageId :: jsval

text \<open>
  Lines 91 to 108 of \<^verbatim>\<open>part_001\<close>: validation of the extracted data and construction of
  the result.
\<close>

definition buildParsed :: "jsval \<Rightarrow> jsval \<Rightarrow> jsval \<Rightarrow> error + parsedMessage option" where
  "buildParsed message sender ts =
     (if \<not> truthy sender \<or> \<not> truthy message then Inr None
      else bindE (getp message ''mid'') (\<lambda>mid.
        if \<not> truthy mid then Inr None
        else bindE (getp message ''text'') (\<lambda>text.
          bindE (getp message ''attachments'') (\<lambda>attachments.
            Inr (Some \<lparr> senderId = sender,
                        messageText = js_or text Null,
                        hasAttachments = (isArray attachments \<and> arrayLength attachments > 0),
                        timestamp = ts,
                        messageId = mid \<rparr>)))))"

text \<open>
  Lines 25 to 89 of \<^verbatim>\<open>part_001\<close>: the choice of the envelope shape. The result is the
  triple (message, senderId, timestamp), or \<open>None\<close> where the source returns null at once.
  \<open>parseInt\<close> is the language's built-in, taken as a parameter: it returns a value, or
  throws a TypeError on an argument that cannot be converted to a string, such as an object
  whose \<open>toString\<close> property is not a function.
\<close>

definition selectMessage :: "(jsval \<Rightarrow> error + jsval) \<Rightarrow> jsval \<Rightarrow> error + (jsval \<times> jsval \<times> jsval) option" where
  "selectMessage parseInt entry =
     bindE (getp entry ''messaging'') (\<lambda>messaging.
       if truthy messaging \<and> isArray messaging \<and> arrayLength messaging > 0 then
         (let messagingEvent = index0 messaging in
          bindE (getp messagingEvent ''message'') (\<lambda>msg.
            if truthy msg then
              Inr (Some (msg,
                         getp_opt (member messagingEvent ''sender'') ''id'',
                         member messagingEvent ''timestamp''))
            else
              (let message_edit = member messagingEvent ''message_edit'' in
               if truthy message_edit then
                 Inr (Some (Obj [(''mid'', member message_edit ''mid''),
                                 (''text'', member message_edit ''text''),
                                 (''attachments'', member message_edit ''attachments'')],
                            getp_opt (member messagingEvent ''sender'') ''id'',
                            member messagingEvent ''timestamp''))
               else Inr None)))
       else
         (let changes = member entry ''changes'' in
          if truthy changes \<and> isArray changes \<and> arrayLength changes > 0 then
            (let change = index0 changes in
             bindE (getp change ''field'') (\<lambda>field.
               if field \<noteq> Str ''messages'' \<or> \<not> truthy (member change ''value'') then Inr None
               else
                 (let v = member change ''value'' in
                  if truthy (member v ''timestamp'') then
                    bindE (parseInt (member v ''timestamp'')) (\<lambda>ts.
                      Inr (Some (member v ''message'',
                                 getp_opt (member v ''sender'') ''id'',
                                 ts)))
                  else
                    Inr (Some (member v ''message'',
                               getp_opt (member v ''sender'') ''id'',
                               Null)))))
          else Inr None))"

definition parseWebhookEvent_try :: "(jsval \<Rightarrow> error + jsval) \<Rightarrow> jsval \<Rightarrow> error + parsedMessage option" where
  "parseWebhookEvent_try parseInt payload =
     (if \<not> truthy payload then Inr None
      else
        (let entries = member payload ''entry'' in
         if \<not> truthy entries \<or> \<not> isArray entries \<or> arrayLength entries = 0 then Inr None
         else
           bindE (selectMessage parseInt (index0 entries)) (\<lambda>sel.
             case sel of
               None \<Rightarrow> Inr None
             | Some (message, sender, ts) \<Rightarrow> buildParsed message sender ts)))"

text \<open>The \<open>catch\<close> clause logs the error and returns null.\<close>

definition parseWebhookEvent :: "(jsval \<Rightarrow> error + jsval) \<Rightarrow> jsval \<Rightarrow> parsedMessage option" where
  "parseWebhookEvent parseInt payload =
     (case parseWebhookEvent_try parseInt payload of Inl e \<Rightarrow> None | Inr r \<Rightarrow> r)"

text \<open>The parser of \<^verbatim>\<open>src/utils/messageParser.js\<close>.\<close>

definition parseWebhookEvent_strict_try :: "jsval \<Rightarrow> error + parsedMessage option" where
  "parseWebhookEvent_strict_try payload =
     (if \<not> truthy payload then Inr None
      else
        (let entries = member payload ''entry'' in
         if \<not> truthy entries \<or> \<not> isArray entries \<or> arrayLength entries = 0 then Inr None
         else
           (let entry = index0 entries in
            bindE (getp entry ''messaging'') (\<lambda>messaging.
              if \<not> truthy messaging \<or> \<not> isArray messaging \<or> arrayLength messaging = 0
              then Inr None
              else
                (let messagingEvent = index0 messaging in
                 bindE (getp messagingEvent ''message'') (\<lambda>message.
                   if \<not> truthy message then Inr None
                   else if \<not> truthy (member messagingEvent ''sender'')
                           \<or> \<not> truthy (member (member messagingEvent ''sender'') ''id'')
                   then Inr None
                   else if \<not> truthy (member messagingEvent ''timestamp'') then Inr None
                   else if \<not> truthy (member message ''mid'') then Inr None
                   else
                     Inr (Some \<lparr> senderId = member (member messagingEvent ''sender'') ''id'',
                                 messageText = js_or (member message ''text'') Null,
                                 hasAttachments =
                                   (isArray (member message ''attachments'')
                                    \<and> arrayLength (member message ''attachments'') > 0),
                                 timestamp = member messagingEvent ''timestamp'',
                                 messageId = member message ''mid'' \<rparr>)))))))"

definition parseWebhookEvent_strict :: "jsval \<Rightarrow> parsedMessage option" where
  "parseWebhookEvent_strict payload =
     (case parseWebhookEvent_strict_try payload of Inl e \<Rightarrow> None | Inr r \<Rightarrow> r)"

section \<open>The eligibility filter and the orchestrator\<close>

text \<open>
  Everything the pipeline does besides returning is a call of the logger, of the reply
  generator or of the delivery client. The trace lists these calls in order. A logger call
  records its level, its message, the error object it was given and its context.
\<close>

datatype level = ERROR | INFO | DEBUG

datatype event =
    Log level string "error option" "(string \<times> jsval) list"
  | Generate jsval
  | Send jsval jsval

definition idContext :: "parsedMessage \<Rightarrow> (string \<times> jsval) list" where
  "idContext pm = [(''messageId'', messageId pm), (''senderId'', senderId pm)]"

text \<open>
  \<open>shouldReplyToMessage\<close> returns its boolean together with the logger calls it made.
  \<open>None\<close> is the null argument.
\<close>

definition shouldReplyToMessage :: "parsedMessage option \<Rightarrow> string \<Rightarrow> bool \<times> event list" where
  "shouldReplyToMessage parsed botInstagramId =
     (case parsed of
        None \<Rightarrow> (False, [Log DEBUG ''Filtering message: parsedMessage is null'' None []])
      | Some pm \<Rightarrow>
          if messageText pm = Null then
            (False, [Log DEBUG ''Filtering message: messageText is null'' None (idContext pm)])
          else if hasAttachments pm = True then
            (False, [Log DEBUG ''Filtering message: message has attachments'' None (idContext pm)])
          else if senderId pm = Str botInstagramId then
            (False, [Log DEBUG ''Filtering message: sender is bot (echo prevention)'' None
                       (idContext pm)])
          else
            (True, [Log DEBUG ''Message passed all filters, will reply'' None (idContext pm)]))"

text \<open>
  The body of the \<open>try\<close> block of \<open>processWebhookEvent\<close>. The parser, the reply generator
  and the delivery client are parameters; each of them returns a value or throws. The
  result is the completion of the block (\<open>Inl\<close> an exception thrown inside it), the variables
  \<open>messageId\<close> and \<open>senderId\<close> as they stand at that moment, and the trace.
\<close>

definition processWebhookEvent_try ::
  "(jsval \<Rightarrow> error + parsedMessage option) \<Rightarrow> (jsval \<Rightarrow> error + jsval)
     \<Rightarrow> (jsval \<Rightarrow> jsval \<Rightarrow> error + jsval) \<Rightarrow> string \<Rightarrow> jsval
     \<Rightarrow> (error + unit) \<times> (jsval \<times> jsval) \<times> event list" where
  "processWebhookEvent_try parse generateResponse sendMsg botInstagramId payload =
     (let ids0 = (Str ''unknown'', Str ''unknown'');
          t0 = [Log DEBUG ''Received webhook event'' None [(''payload'', payload)]]
      in case parse payload of
           Inl e \<Rightarrow> (Inl e, ids0, t0)
         | Inr None \<Rightarrow>
             (Inr (), ids0,
              t0 @ [Log DEBUG ''Failed to parse message - invalid payload structure'' None []])
         | Inr (Some pm) \<Rightarrow>
             (let ids = (messageId pm, senderId pm);
                  t1 = t0 @ [Log DEBUG ''Parsed message successfully'' None
                               (idContext pm @ [(''messageText'', messageText pm)])];
                  decision = shouldReplyToMessage (Some pm) botInstagramId;
                  t2 = t1 @ snd decision
              in if \<not> fst decision then
                   (Inr (), ids,
                    t2 @ [Log DEBUG ''Message filtered - no reply needed'' None (idContext pm)])
                 else
                   (let t3 = t2 @ [Log DEBUG ''Message passed filters'' None (idContext pm),
                                   Generate (messageText pm)]
                    in case generateResponse (messageText pm) of
                         Inl e \<Rightarrow> (Inl e, ids, t3)
                       | Inr aiResponse \<Rightarrow>
                           (case getp aiResponse ''length'' of
                              Inl e \<Rightarrow> (Inl e, ids, t3)
                            | Inr len \<Rightarrow>
                                (let t4 = t3 @ [Log INFO ''Generated AI response'' None
                                                  (idContext pm @ [(''responseLength'', len)]),
                                                Send (senderId pm) aiResponse]
                                 in case sendMsg (senderId pm) aiResponse of
                                      Inl e \<Rightarrow> (Inl e, ids, t4)
                                    | Inr result \<Rightarrow>
                                        (case getp result ''success'' of
                                           Inl e \<Rightarrow> (Inl e, ids, t4)
                                         | Inr success \<Rightarrow>
                                             if truthy success then
                                               (Inr (), ids,
                                                t4 @ [Log INFO ''Message processed successfully'' None
                                                        (idContext pm @
                                                         [(''instagramMessageId'',
                                                           member result ''messageId'')])])
                                             else
                                               (Inr (), ids,
                                                t4 @ [Log ERROR ''Failed to send reply'' None
                                                        (idContext pm @
                                                         [(''error'', member result ''error'')])])))))))"

text \<open>
  The \<open>catch\<close> clause holds one logger call and does not rethrow. The first component of
  the result is how the function completes: \<open>Inl\<close> would be an exception that escapes.
\<close>

definition processWebhookEvent ::
  "(jsval \<Rightarrow> error + parsedMessage option) \<Rightarrow> (jsval \<Rightarrow> error + jsval)
     \<Rightarrow> (jsval \<Rightarrow> jsval \<Rightarrow> error + jsval) \<Rightarrow> string \<Rightarrow> jsval
     \<Rightarrow> (error + unit) \<times> event list" where
  "processWebhookEvent parse generateResponse sendMsg botInstagramId payload =
     (case processWebhookEvent_try parse generateResponse sendMsg botInstagramId payload of
        (Inr u, ids, t) \<Rightarrow> (Inr u, t)
      | (Inl e, (mid, sid), t) \<Rightarrow>
          (Inr (),
           t @ [Log ERROR ''Error processing message'' (Some e)
                  [(''messageId'', mid), (''senderId'', sid)]]))"

section \<open>The verification handshake\<close>

text \<open>
  A buffer is the list of its bytes. \<open>Buffer.from\<close> of a string is the list of the byte
  values of its characters, \<open>Buffer.alloc\<close> gives zero bytes, \<open>copy\<close> writes the source over
  the start of the target, and \<open>crypto.timingSafeEqual\<close> throws on buffers of different
  lengths.
\<close>

definition Buffer_from :: "string \<Rightarrow> nat list" where
  "Buffer_from s = map of_char s"

definition Buffer_alloc :: "nat \<Rightarrow> nat list" where
  "Buffer_alloc n = replicate n 0"

definition Buffer_copy :: "nat list \<Rightarrow> nat list \<Rightarrow> nat list" where
  "Buffer_copy source target = take (length target) source @ drop (length source) target"

definition timingSafeEqual :: "nat list \<Rightarrow> nat list \<Rightarrow> error + bool" where
  "timingSafeEqual a b =
     (if length a \<noteq> length b then Inl (Error ''ERR_CRYPTO_TIMING_SAFE_EQUAL_LENGTH'')
      else Inr (a = b))"

definition secureCompare :: "jsval \<Rightarrow> jsval \<Rightarrow> bool" where
  "secureCompare a b =
     (case (a, b) of
        (Str sa, Str sb) \<Rightarrow>
          (let bufferA = Buffer_from sa;
               bufferB = Buffer_from sb;
               maxLength = max (length bufferA) (length bufferB);
               paddedA = Buffer_copy bufferA (Buffer_alloc maxLength);
               paddedB = Buffer_copy bufferB (Buffer_alloc maxLength)
           in case timingSafeEqual paddedA paddedB of
                Inl e \<Rightarrow> False
              | Inr eq \<Rightarrow> eq \<and> length bufferA = length bufferB)
      | _ \<Rightarrow> False)"

text \<open>
  The handler answers by one call on the response object: \<open>res.sendStatus(n)\<close> or
  \<open>res.status(n).send(body)\<close>. \<open>expectedToken\<close> is \<open>process.env.VERIFY_TOKEN\<close> and
  \<open>query\<close> is \<open>req.query\<close>.
\<close>

datatype reply = SendStatus nat | StatusSend nat jsval

definition handleVerification :: "jsval \<Rightarrow> jsval \<Rightarrow> reply" where
  "handleVerification expectedToken query =
     (let mode = member query ''hub.mode'';
          token = member query ''hub.verify_token'';
          challenge = member query ''hub.challenge''
      in if mode \<noteq> Str ''subscribe'' then SendStatus 403
         else if \<not> secureCompare token expectedToken then SendStatus 403
         else StatusSend 200 challenge)"

section \<open>The delivery client\<close>

text \<open>
  \<open>axios.post\<close> either resolves with a response or rejects with a value, which the
  \<open>catch\<close> clause receives. An error object may carry a response, a code and a message;
  \<open>Rejected None\<close> is a rejection with null or undefined. The environment \<open>post\<close> gives
  the outcome of each call, counted from 0.
\<close>

record axios_response =
  status :: int
  statusText :: jsval
  data :: jsval

record axios_error =
  response :: "axios_response option"
  code :: jsval
  message :: jsval

datatype attempt = Resolved axios_response | Rejected "axios_error option"

text \<open>
  Modelled from the spec: the rejections of \<open>axios.post\<close>. The axios library is not part
  of the repository. A rejection is an error object. The spec knows two classes of failure:
  the failure with no interpretable response, which is where timeouts and network-level
  failures belong, and the failure with an error response. So an error that carries a
  response does not carry a timeout code.
\<close>

definition axiosContract :: "attempt \<Rightarrow> bool" where
  "axiosContract outcome =
     (case outcome of
        Resolved r \<Rightarrow> True
      | Rejected None \<Rightarrow> False
      | Rejected (Some err) \<Rightarrow>
          response err = None
          \<or> (code err \<noteq> Str ''ECONNABORTED'' \<and> code err \<noteq> Str ''ETIMEDOUT''))"

definition maxRetries :: nat where
  "maxRetries = 1"

text \<open>
  The \<open>try\<close> block of one iteration: \<open>Inl\<close> is the value the \<open>catch\<close> clause receives.
  Reading \<open>response.data.message_id\<close> throws a TypeError when the body is null or
  undefined; the same \<open>catch\<close> clause receives it, an error object without response and
  without code.
\<close>

definition attemptSend :: "attempt \<Rightarrow> axios_error option + jsval" where
  "attemptSend outcome =
     (case outcome of
        Rejected thrown \<Rightarrow> Inl thrown
      | Resolved r \<Rightarrow>
          (case getp (data r) ''message_id'' of
             Inl e \<Rightarrow>
               Inl (Some \<lparr> response = None, code = Undefined,
                           message = Str (''Cannot read properties of ''
                             @ (if data r = Null then ''null'' else ''undefined'')
                             @ '' (reading '' @ [CHR 0x27] @ ''message_id'' @ [CHR 0x27]
                             @ '')'') \<rparr>)
           | Inr mid \<Rightarrow> Inr (js_or mid (member (data r) ''id''))))"

definition isNetworkError :: "axios_error \<Rightarrow> bool" where
  "isNetworkError err =
     (response err = None \<or> code err = Str ''ECONNABORTED'' \<or> code err = Str ''ETIMEDOUT'')"

definition is4xxError :: "axios_error \<Rightarrow> bool" where
  "is4xxError err =
     (case response err of None \<Rightarrow> False | Some r \<Rightarrow> status r \<ge> 400 \<and> status r < 500)"

definition errorMessage :: "axios_error \<Rightarrow> jsval" where
  "errorMessage err =
     js_or (js_or (case response err of
                     None \<Rightarrow> Undefined
                   | Some r \<Rightarrow> getp_opt (getp_opt (data r) ''error'') ''message'')
                  (message err))
           (Str ''Unknown error'')"

text \<open>
  The \<open>while\<close> loop. \<open>calls\<close> counts the calls of \<open>axios.post\<close> made so far; the result is
  how the function completes and the final count. It completes with an outcome object,
  or with an exception that escapes: the \<open>catch\<close> clause starts by reading
  \<open>error.response\<close>, which throws a TypeError when the rejection is null or undefined.
\<close>

function sendMessage_loop :: "(nat \<Rightarrow> attempt) \<Rightarrow> nat \<Rightarrow> nat \<Rightarrow> (error + jsval) \<times> nat" where
  "sendMessage_loop post attempt calls =
     (if attempt \<le> maxRetries then
        (case attemptSend (post calls) of
           Inr mid \<Rightarrow> (Inr (Obj [(''success'', Bool True), (''messageId'', mid)]), calls + 1)
         | Inl None \<Rightarrow> (Inl TypeError, calls + 1)
         | Inl (Some err) \<Rightarrow>
             if isNetworkError err \<and> attempt < maxRetries then
               sendMessage_loop post (attempt + 1) (calls + 1)
             else
               (Inr (Obj [(''success'', Bool False), (''error'', errorMessage err)]), calls + 1))
      else (Inr (Obj [(''success'', Bool False), (''error'', Str ''Max retries exceeded'')]),
            calls))"
  by pat_completeness auto
termination
  by (relation "measure (\<lambda>(post, attempt, calls). Suc maxRetries - attempt)") auto

declare sendMessage_loop.simps [simp del]

definition sendMessage ::
  "(jsval \<Rightarrow> jsval \<Rightarrow> nat \<Rightarrow> attempt) \<Rightarrow> jsval \<Rightarrow> jsval \<Rightarrow> (error + jsval) \<times> nat" where
  "sendMessage post recipientId text = sendMessage_loop (post recipientId text) 0 0"

text \<open>
  The test suite of the delivery client drives it with \<open>axios.post.mockRejectedValue(err)\<close>:
  every call rejects with the same error object.
\<close>

definition mockRejectedValue :: "axios_error \<Rightarrow> jsval \<Rightarrow> jsval \<Rightarrow> nat \<Rightarrow> attempt" where
  "mockRejectedValue err recipientId text call = Rejected (Some err)"

section \<open>Properties of the value model\<close>

lemma member_Arr_is_Obj: "member v k = Arr xs \<Longrightarrow> \<exists>ps. v = Obj ps"
  by (cases v) (auto split: if_splits)

lemma member_Str_is_Obj: "member v k = Str s \<Longrightarrow> k \<noteq> ''length'' \<Longrightarrow> \<exists>ps. v = Obj ps"
  by (cases v) (auto split: if_splits)

lemma getp_truthy: "truthy v \<Longrightarrow> getp v k = Inr (member v k)"
  by (cases v) auto

lemma getp_opt_member: "getp_opt v k = member v k"
  by (cases v) auto

lemma getp_Inr: "getp v k = Inr x \<longleftrightarrow> v \<noteq> Undefined \<and> v \<noteq> Null \<and> x = member v k"
  by (cases v) auto

lemma member_truthy_nonnullish: "truthy (member v k) \<Longrightarrow> v \<noteq> Undefined \<and> v \<noteq> Null"
  by (cases v) auto

lemma member_member_Str_truthy:
  "member (member v k) k' = Str s \<Longrightarrow> k' \<noteq> ''length'' \<Longrightarrow> truthy (member v k)"
  using member_Str_is_Obj by fastforce

lemma truthy_present: "truthy v \<Longrightarrow> v \<noteq> Undefined \<and> v \<noteq> Null \<and> v \<noteq> Str []"
  by (cases v) auto

section \<open>The eligibility filter\<close>

text \<open>
  C1. \<open>shouldReplyToMessage\<close> returns true if and only if the parsed message is not null,
  its text is not null, it has no attachments and its sender differs from the bot's id.
  The rules are tried in this order and the first one that fails decides: the logger call
  names it, whatever the later rules would have said.
\<close>

theorem shouldReplyToMessage_rules:
  "(fst (shouldReplyToMessage parsed selfId) \<longleftrightarrow>
      (\<exists>pm. parsed = Some pm \<and> messageText pm \<noteq> Null \<and> \<not> hasAttachments pm
            \<and> senderId pm \<noteq> Str selfId))
   \<and> (parsed = None \<longrightarrow>
        shouldReplyToMessage parsed selfId =
          (False, [Log DEBUG ''Filtering message: parsedMessage is null'' None []]))
   \<and> (\<forall>pm. parsed = Some pm \<and> messageText pm = Null \<longrightarrow>
        shouldReplyToMessage parsed selfId =
          (False, [Log DEBUG ''Filtering message: messageText is null'' None (idContext pm)]))
   \<and> (\<forall>pm. parsed = Some pm \<and> messageText pm \<noteq> Null \<and> hasAttachments pm \<longrightarrow>
        shouldReplyToMessage parsed selfId =
          (False, [Log DEBUG ''Filtering message: message has attachments'' None (idContext pm)]))
   \<and> (\<forall>pm. parsed = Some pm \<and> messageText pm \<noteq> Null \<and> \<not> hasAttachments pm
            \<and> senderId pm = Str selfId \<longrightarrow>
        shouldReplyToMessage parsed selfId =
          (False, [Log DEBUG ''Filtering message: sender is bot (echo prevention)'' None
                     (idContext pm)]))"
  by (cases parsed) (simp_all add: shouldReplyToMessage_def)

theorem shouldReplyToMessage_rules_witness:
  "shouldReplyToMessage
     (Some \<lparr> senderId = Str ''bot'', messageText = Null, hasAttachments = True,
             timestamp = Undefined, messageId = Str ''m1'' \<rparr>) ''bot''
   = (False, [Log DEBUG ''Filtering message: messageText is null'' None
                [(''messageId'', Str ''m1''), (''senderId'', Str ''bot'')]])
   \<and> fst (shouldReplyToMessage
     (Some \<lparr> senderId = Str ''U1'', messageText = Str ''hi'', hasAttachments = False,
             timestamp = Undefined, messageId = Str ''m1'' \<rparr>) ''bot'')"
  using shouldReplyToMessage_rules
    [of "Some \<lparr> senderId = Str ''bot'', messageText = Null, hasAttachments = True,
             timestamp = Undefined, messageId = Str ''m1'' \<rparr>" "''bot''"]
   shouldReplyToMessage_rules
    [of "Some \<lparr> senderId = Str ''U1'', messageText = Str ''hi'', hasAttachments = False,
             timestamp = Undefined, messageId = Str ''m1'' \<rparr>" "''bot''"]
  by (simp add: idContext_def)

section \<open>The verification handshake\<close>

text \<open>
  On two strings the comparison is equality: with equal lengths the padding changes
  nothing, and with different lengths the length test fails.
\<close>

lemma secureCompare_iff: "secureCompare a b \<longleftrightarrow> (\<exists>s. a = Str s \<and> b = Str s)"
proof (cases a)
  case (Str sa)
  show ?thesis
  proof (cases b)
    case (Str sb)
    show ?thesis
    proof (cases "length sa = length sb")
      case True
      then show ?thesis
        using \<open>a = Str sa\<close> \<open>b = Str sb\<close>
        by (auto simp: secureCompare_def Buffer_from_def Buffer_alloc_def Buffer_copy_def
            timingSafeEqual_def inj_map_eq_map[OF inj_of_char])
    next
      case False
      then show ?thesis
        using \<open>a = Str sa\<close> \<open>b = Str sb\<close>
        by (auto simp: secureCompare_def Buffer_from_def Buffer_alloc_def Buffer_copy_def
            timingSafeEqual_def Let_def split: sum.splits)
    qed
  qed (simp_all add: secureCompare_def \<open>a = Str sa\<close>)
qed (simp_all add: secureCompare_def)

text \<open>
  C9. \<open>handleVerification\<close> answers 200 with the supplied challenge if and only if the mode
  is the string "subscribe" and the supplied token is a string equal to the configured
  secret; in every other case (another mode, a token of another length, a token that is
  absent or not a string, no configured secret) it answers 403.
\<close>

theorem handleVerification_iff:
  "handleVerification expectedToken query =
     (if member query ''hub.mode'' = Str ''subscribe''
         \<and> (\<exists>s. member query ''hub.verify_token'' = Str s \<and> expectedToken = Str s)
      then StatusSend 200 (member query ''hub.challenge'')
      else SendStatus 403)"
  by (simp add: handleVerification_def secureCompare_iff Let_def)

theorem handleVerification_iff_witness:
  "handleVerification (Str ''s3cret'')
     (Obj [(''hub.mode'', Str ''subscribe''), (''hub.verify_token'', Str ''s3cret''),
           (''hub.challenge'', Str ''1158201444'')])
   = StatusSend 200 (Str ''1158201444'')
   \<and> handleVerification (Str ''s3cret'')
     (Obj [(''hub.mode'', Str ''subscribe''), (''hub.verify_token'', Str ''s3c''),
           (''hub.challenge'', Str ''1158201444'')])
   = SendStatus 403
   \<and> handleVerification (Str ''s3cret'')
     (Obj [(''hub.mode'', Str ''subscribe''), (''hub.challenge'', Str ''1158201444'')])
   = SendStatus 403"
  using handleVerification_iff [of "Str ''s3cret''"
      "Obj [(''hub.mode'', Str ''subscribe''), (''hub.verify_token'', Str ''s3cret''),
            (''hub.challenge'', Str ''1158201444'')]"]
    handleVerification_iff [of "Str ''s3cret''"
      "Obj [(''hub.mode'', Str ''subscribe''), (''hub.verify_token'', Str ''s3c''),
            (''hub.challenge'', Str ''1158201444'')]"]
    handleVerification_iff [of "Str ''s3cret''"
      "Obj [(''hub.mode'', Str ''subscribe''), (''hub.challenge'', Str ''1158201444'')]"]
  by simp

section \<open>The event parser\<close>

lemma buildParsed_eq:
  "buildParsed m s ts =
     Inr (if truthy s \<and> truthy m \<and> truthy (member m ''mid'')
          then Some \<lparr> senderId = s,
                      messageText = js_or (member m ''text'') Null,
                      hasAttachments = (isArray (member m ''attachments'')
                                        \<and> arrayLength (member m ''attachments'') > 0),
                      timestamp = ts,
                      messageId = member m ''mid'' \<rparr>
          else None)"
  by (simp add: buildParsed_def bindE_def getp_truthy)

text \<open>What a successful parse tells about the result, for each of the two parsers.\<close>

lemma parseWebhookEvent_Some:
  assumes "parseWebhookEvent parseInt payload = Some pm"
  shows "\<exists>m s ts. selectMessage parseInt (index0 (member payload ''entry'')) = Inr (Some (m, s, ts))
           \<and> truthy s \<and> truthy m \<and> truthy (member m ''mid'')
           \<and> pm = \<lparr> senderId = s,
                      messageText = js_or (member m ''text'') Null,
                      hasAttachments = (isArray (member m ''attachments'')
                                        \<and> arrayLength (member m ''attachments'') > 0),
                      timestamp = ts,
                      messageId = member m ''mid'' \<rparr>"
  using assms
  by (auto simp: parseWebhookEvent_def parseWebhookEvent_try_def bindE_def Let_def buildParsed_eq
      split: if_splits sum.splits option.splits)

lemma parseWebhookEvent_strict_Some:
  assumes "parseWebhookEvent_strict payload = Some pm"
  shows "\<exists>ev m. ev = index0 (member (index0 (member payload ''entry'')) ''messaging'')
           \<and> m = member ev ''message''
           \<and> truthy m \<and> truthy (member (member ev ''sender'') ''id'')
           \<and> truthy (member ev ''timestamp'') \<and> truthy (member m ''mid'')
           \<and> pm = \<lparr> senderId = member (member ev ''sender'') ''id'',
                      messageText = js_or (member m ''text'') Null,
                      hasAttachments = (isArray (member m ''attachments'')
                                        \<and> arrayLength (member m ''attachments'') > 0),
                      timestamp = member ev ''timestamp'',
                      messageId = member m ''mid'' \<rparr>"
  using assms
  by (auto simp: parseWebhookEvent_strict_def parseWebhookEvent_strict_try_def bindE_def Let_def
      getp_Inr split: if_splits sum.splits option.splits)

text \<open>The three ways in which \<open>selectMessage\<close> finds a message.\<close>

lemma selectMessage_message:
  assumes "member entry ''messaging'' = Arr (ev # evs)" and "truthy (member ev ''message'')"
  shows "selectMessage parseInt entry =
           Inr (Some (member ev ''message'', member (member ev ''sender'') ''id'',
                      member ev ''timestamp''))"
proof -
  obtain ps where "entry = Obj ps" using assms(1) member_Arr_is_Obj by blast
  moreover have "getp ev ''message'' = Inr (member ev ''message'')"
    using member_truthy_nonnullish [OF assms(2)] by (simp add: getp_Inr)
  ultimately show ?thesis
    using assms by (simp add: selectMessage_def bindE_def getp_opt_member)
qed

lemma selectMessage_message_edit:
  assumes "member entry ''messaging'' = Arr (ev # evs)" and "\<not> truthy (member ev ''message'')"
    and "truthy (member ev ''message_edit'')"
  shows "selectMessage parseInt entry =
           Inr (Some (Obj [(''mid'', member (member ev ''message_edit'') ''mid''),
                           (''text'', member (member ev ''message_edit'') ''text''),
                           (''attachments'', member (member ev ''message_edit'') ''attachments'')],
                      member (member ev ''sender'') ''id'',
                      member ev ''timestamp''))"
proof -
  obtain ps where "entry = Obj ps" using assms(1) member_Arr_is_Obj by blast
  moreover have "getp ev ''message'' = Inr (member ev ''message'')"
    using member_truthy_nonnullish [OF assms(3)] by (simp add: getp_Inr)
  ultimately show ?thesis
    using assms by (simp add: selectMessage_def bindE_def getp_opt_member Let_def)
qed

lemma selectMessage_changes:
  assumes "arrayLength (member entry ''messaging'') = 0"
    and "member entry ''changes'' = Arr (ch # chs)"
    and "member ch ''field'' = Str ''messages''"
    and "truthy (member ch ''value'')"
  shows "selectMessage parseInt entry =
           (if truthy (member (member ch ''value'') ''timestamp'') then
              (case parseInt (member (member ch ''value'') ''timestamp'') of
                 Inl e \<Rightarrow> Inl e
               | Inr ts \<Rightarrow>
                   Inr (Some (member (member ch ''value'') ''message'',
                              member (member (member ch ''value'') ''sender'') ''id'', ts)))
            else
              Inr (Some (member (member ch ''value'') ''message'',
                         member (member (member ch ''value'') ''sender'') ''id'', Null)))"
proof -
  obtain ps where "entry = Obj ps" using assms(2) member_Arr_is_Obj by blast
  moreover have "getp ch ''field'' = Inr (member ch ''field'')"
    using member_truthy_nonnullish [OF assms(4)] by (simp add: getp_Inr)
  ultimately show ?thesis
    using assms by (simp add: selectMessage_def bindE_def getp_opt_member Let_def)
qed

lemma selectMessage_other_field:
  assumes "arrayLength (member entry ''messaging'') = 0"
    and "member entry ''changes'' = Arr (ch # chs)"
    and "member ch ''field'' \<noteq> Str ''messages''"
    and "truthy (member ch ''value'')"
  shows "selectMessage parseInt entry = Inr None"
proof -
  obtain ps where "entry = Obj ps" using assms(2) member_Arr_is_Obj by blast
  moreover have "getp ch ''field'' = Inr (member ch ''field'')"
    using member_truthy_nonnullish [OF assms(4)] by (simp add: getp_Inr)
  ultimately show ?thesis
    using assms by (simp add: selectMessage_def bindE_def)
qed

text \<open>Both parsers on a payload whose entry list is not empty.\<close>

lemma parseWebhookEvent_entry:
  assumes "member payload ''entry'' = Arr (entry # rest)"
  shows "parseWebhookEvent parseInt payload =
           (case selectMessage parseInt entry of
              Inl e \<Rightarrow> None
            | Inr None \<Rightarrow> None
            | Inr (Some (m, s, ts)) \<Rightarrow>
                (if truthy s \<and> truthy m \<and> truthy (member m ''mid'')
                 then Some \<lparr> senderId = s,
                      messageText = js_or (member m ''text'') Null,
                      hasAttachments = (isArray (member m ''attachments'')
                                        \<and> arrayLength (member m ''attachments'') > 0),
                      timestamp = ts,
                      messageId = member m ''mid'' \<rparr>
                 else None))"
proof -
  obtain ps where "payload = Obj ps" using assms member_Arr_is_Obj by blast
  then show ?thesis
    using assms
    by (simp add: parseWebhookEvent_def parseWebhookEvent_try_def bindE_def buildParsed_eq
        split: sum.splits option.splits)
qed

lemma parseWebhookEvent_strict_no_messaging:
  assumes "member payload ''entry'' = Arr (entry # rest)"
    and "arrayLength (member entry ''messaging'') = 0"
  shows "parseWebhookEvent_strict payload = None"
proof -
  obtain ps where "payload = Obj ps" using assms(1) member_Arr_is_Obj by blast
  then show ?thesis
    using assms
    by (cases entry)
       (simp_all add: parseWebhookEvent_strict_def parseWebhookEvent_strict_try_def bindE_def)
qed

lemma parseWebhookEvent_strict_messaging:
  assumes "member payload ''entry'' = Arr (entry # rest)"
    and "member entry ''messaging'' = Arr (ev # evs)"
  shows "parseWebhookEvent_strict payload =
           (if truthy (member ev ''message'') \<and> truthy (member (member ev ''sender'') ''id'')
               \<and> truthy (member ev ''timestamp'')
               \<and> truthy (member (member ev ''message'') ''mid'')
            then Some \<lparr> senderId = member (member ev ''sender'') ''id'',
                   messageText = js_or (member (member ev ''message'') ''text'') Null,
                   hasAttachments = (isArray (member (member ev ''message'') ''attachments'')
                       \<and> arrayLength (member (member ev ''message'') ''attachments'') > 0),
                   timestamp = member ev ''timestamp'',
                   messageId = member (member ev ''message'') ''mid'' \<rparr>
            else None)"
proof -
  obtain ps where p: "payload = Obj ps" using assms(1) member_Arr_is_Obj by blast
  obtain es where e: "entry = Obj es" using assms(2) member_Arr_is_Obj by blast
  show ?thesis
  proof (cases "truthy (member ev ''message'')")
    case True
    then have "getp ev ''message'' = Inr (member ev ''message'')"
      using member_truthy_nonnullish by (simp add: getp_Inr)
    then show ?thesis
      using assms p e True
      by (cases "member ev ''sender''")
         (simp_all add: parseWebhookEvent_strict_def parseWebhookEvent_strict_try_def bindE_def)
  next
    case False
    then show ?thesis
      using assms p e
      by (cases ev)
         (simp_all add: parseWebhookEvent_strict_def parseWebhookEvent_strict_try_def bindE_def)
  qed
qed

text \<open>
  C6. Both parsers are total and keep the invariant of a parsed message: an exception
  thrown inside the \<open>try\<close> block becomes the null result, and a result that is not null
  has a sender id and a message id that are truthy, hence neither undefined, nor null, nor
  the empty string.
\<close>

theorem parseWebhookEvent_total_invariant:
  "(parseWebhookEvent_try parseInt payload = Inl e \<longrightarrow> parseWebhookEvent parseInt payload = None)
   \<and> (parseWebhookEvent_strict_try payload = Inl e \<longrightarrow> parseWebhookEvent_strict payload = None)
   \<and> (\<forall>pm. parseWebhookEvent parseInt payload = Some pm
             \<or> parseWebhookEvent_strict payload = Some pm \<longrightarrow>
          truthy (senderId pm) \<and> truthy (messageId pm)
          \<and> senderId pm \<noteq> Undefined \<and> senderId pm \<noteq> Null \<and> senderId pm \<noteq> Str []
          \<and> messageId pm \<noteq> Undefined \<and> messageId pm \<noteq> Null \<and> messageId pm \<noteq> Str [])"
proof -
  have inv: "truthy (senderId pm) \<and> truthy (messageId pm)"
    if "parseWebhookEvent parseInt payload = Some pm \<or> parseWebhookEvent_strict payload = Some pm"
    for pm
    using that parseWebhookEvent_Some [of parseInt payload pm]
      parseWebhookEvent_strict_Some [of payload pm]
    by auto
  show ?thesis
    using inv truthy_present
    by (simp add: parseWebhookEvent_def parseWebhookEvent_strict_def)
qed

theorem parseWebhookEvent_total_invariant_witness:
  "parseWebhookEvent Inr (Obj [(''entry'', Arr [Null])]) = None
   \<and> parseWebhookEvent_strict (Obj [(''entry'', Arr [Null])]) = None
   \<and> (\<exists>pm. parseWebhookEvent_strict
               (Obj [(''entry'', Arr [Obj [(''messaging'', Arr [Obj
                  [(''sender'', Obj [(''id'', Str ''SENDER_123'')]),
                   (''timestamp'', Num 1234567890),
                   (''message'', Obj [(''mid'', Str ''MSG_789''), (''text'', Str ''Hello!'')])]])]])])
             = Some pm
          \<and> senderId pm \<noteq> Str [] \<and> messageId pm \<noteq> Str [])"
proof -
  let ?payload = "Obj [(''entry'', Arr [Obj [(''messaging'', Arr [Obj
                  [(''sender'', Obj [(''id'', Str ''SENDER_123'')]),
                   (''timestamp'', Num 1234567890),
                   (''message'', Obj [(''mid'', Str ''MSG_789''), (''text'', Str ''Hello!'')])]])]])]"
  have thrown: "parseWebhookEvent_try Inr (Obj [(''entry'', Arr [Null])]) = Inl TypeError"
    "parseWebhookEvent_strict_try (Obj [(''entry'', Arr [Null])]) = Inl TypeError"
    by (simp_all add: parseWebhookEvent_try_def parseWebhookEvent_strict_try_def
        selectMessage_def bindE_def)
  have parsed: "\<exists>pm. parseWebhookEvent_strict ?payload = Some pm"
    by (simp add: parseWebhookEvent_strict_def parseWebhookEvent_strict_try_def bindE_def)
  show ?thesis
    using thrown parsed
      parseWebhookEvent_total_invariant [of Inr "Obj [(''entry'', Arr [Null])]" TypeError]
      parseWebhookEvent_total_invariant [of Inr ?payload]
    by blast
qed

text \<open>
  C3, as amended. Take an envelope whose first entry carries, in \<open>src\<close>, a sender id, a
  message id and a text that are non-empty strings, where \<open>src\<close> is either the first event
  of a non-empty messaging list, or the value of a first change whose field is "messages"
  in an entry without a non-empty messaging list. The parser of \<^verbatim>\<open>part_001\<close> returns a
  parsed message with exactly these three strings, with one exception: in the change-list
  shape, when the value carries a truthy timestamp on which \<open>parseInt\<close> throws, the
  exception is caught and the result is null. The parser of
  \<^verbatim>\<open>src/utils/messageParser.js\<close> returns the parsed message only for the messaging list,
  and only when the event also carries a truthy timestamp; otherwise it returns null.
\<close>

theorem parseWebhookEvent_extracts_fields:
  assumes entry: "member payload ''entry'' = Arr (entry # rest)"
    and shape: "member entry ''messaging'' = Arr (src # evs)
                \<or> (arrayLength (member entry ''messaging'') = 0
                    \<and> member entry ''changes'' = Arr (ch # chs)
                    \<and> member ch ''field'' = Str ''messages''
                    \<and> member ch ''value'' = src)"
    and sender: "member (member src ''sender'') ''id'' = Str sid" "sid \<noteq> []"
    and mid: "member (member src ''message'') ''mid'' = Str mid" "mid \<noteq> []"
    and body: "member (member src ''message'') ''text'' = Str txt" "txt \<noteq> []"
  shows "(if member entry ''messaging'' \<noteq> Arr (src # evs)
             \<and> truthy (member src ''timestamp'')
             \<and> (\<exists>e. parseInt (member src ''timestamp'') = Inl e)
          then parseWebhookEvent parseInt payload = None
          else (\<exists>pm. parseWebhookEvent parseInt payload = Some pm
                 \<and> senderId pm = Str sid \<and> messageId pm = Str mid \<and> messageText pm = Str txt))
         \<and> (if member entry ''messaging'' = Arr (src # evs) \<and> truthy (member src ''timestamp'')
            then (\<exists>pm. parseWebhookEvent_strict payload = Some pm
                   \<and> senderId pm = Str sid \<and> messageId pm = Str mid \<and> messageText pm = Str txt)
            else parseWebhookEvent_strict payload = None)"
proof -
  have msg: "truthy (member src ''message'')"
    using mid(1) member_member_Str_truthy by fastforce
  have srcT: "truthy src"
    using msg by (cases src) auto
  show ?thesis
  proof (cases "member entry ''messaging'' = Arr (src # evs)")
    case True
    show ?thesis
      using True msg sender mid body
      by (simp add: parseWebhookEvent_entry [OF entry]
          parseWebhookEvent_strict_messaging [OF entry True]
          selectMessage_message [OF True msg] js_or_def)
  next
    case False
    with shape have B: "arrayLength (member entry ''messaging'') = 0"
      "member entry ''changes'' = Arr (ch # chs)" "member ch ''field'' = Str ''messages''"
      "member ch ''value'' = src"
      by auto
    have v: "truthy (member ch ''value'')"
      using srcT B(4) by simp
    have sel: "selectMessage parseInt entry =
           (if truthy (member src ''timestamp'') then
              (case parseInt (member src ''timestamp'') of
                 Inl e \<Rightarrow> Inl e
               | Inr ts \<Rightarrow>
                   Inr (Some (member src ''message'', member (member src ''sender'') ''id'', ts)))
            else
              Inr (Some (member src ''message'', member (member src ''sender'') ''id'', Null)))"
      using selectMessage_changes [OF B(1) B(2) B(3) v, of parseInt] unfolding B(4) .
    have strict: "parseWebhookEvent_strict payload = None"
      using parseWebhookEvent_strict_no_messaging [OF entry B(1)] .
    show ?thesis
    proof (cases "truthy (member src ''timestamp'')")
      case ts: True
      show ?thesis
      proof (cases "parseInt (member src ''timestamp'')")
        case (Inl e)
        then show ?thesis
          using False ts strict
          by (simp add: parseWebhookEvent_entry [OF entry] sel)
      next
        case (Inr t)
        then show ?thesis
          using False ts strict msg sender mid body
          by (simp add: parseWebhookEvent_entry [OF entry] sel js_or_def)
      qed
    next
      case nots: False
      then show ?thesis
        using False strict msg sender mid body
        by (simp add: parseWebhookEvent_entry [OF entry] sel js_or_def)
    qed
  qed
qed

theorem parseWebhookEvent_extracts_fields_witness:
  "(\<exists>pm. parseWebhookEvent Inr
           (Obj [(''entry'', Arr [Obj [(''changes'', Arr [Obj
              [(''field'', Str ''messages''),
               (''value'', Obj [(''sender'', Obj [(''id'', Str ''U1'')]),
                                (''timestamp'', Str ''1234567890''),
                                (''message'', Obj [(''mid'', Str ''m1''), (''text'', Str ''hi'')])])]])]])])
         = Some pm
       \<and> senderId pm = Str ''U1'' \<and> messageId pm = Str ''m1'' \<and> messageText pm = Str ''hi'')
   \<and> parseWebhookEvent (\<lambda>v. case v of Obj ps \<Rightarrow> Inl TypeError | _ \<Rightarrow> Inr v)
           (Obj [(''entry'', Arr [Obj [(''changes'', Arr [Obj
              [(''field'', Str ''messages''),
               (''value'', Obj [(''sender'', Obj [(''id'', Str ''U1'')]),
                                (''timestamp'', Obj [(''toString'', Num 1)]),
                                (''message'', Obj [(''mid'', Str ''m1''), (''text'', Str ''hi'')])])]])]])])
         = None
   \<and> (\<exists>pm. parseWebhookEvent_strict
           (Obj [(''entry'', Arr [Obj [(''messaging'', Arr [Obj
              [(''sender'', Obj [(''id'', Str ''U1'')]),
               (''timestamp'', Num 1234567890),
               (''message'', Obj [(''mid'', Str ''m1''), (''text'', Str ''hi'')])]])]])])
         = Some pm
       \<and> senderId pm = Str ''U1'' \<and> messageId pm = Str ''m1'' \<and> messageText pm = Str ''hi'')"
proof -
  let ?msg = "Obj [(''mid'', Str ''m1''), (''text'', Str ''hi'')]"
  let ?v = "Obj [(''sender'', Obj [(''id'', Str ''U1'')]), (''timestamp'', Str ''1234567890''),
                 (''message'', ?msg)]"
  let ?w = "Obj [(''sender'', Obj [(''id'', Str ''U1'')]),
                 (''timestamp'', Obj [(''toString'', Num 1)]), (''message'', ?msg)]"
  let ?ch = "Obj [(''field'', Str ''messages''), (''value'', ?v)]"
  let ?ch' = "Obj [(''field'', Str ''messages''), (''value'', ?w)]"
  let ?entryB = "Obj [(''changes'', Arr [?ch])]"
  let ?entryB' = "Obj [(''changes'', Arr [?ch'])]"
  let ?ev = "Obj [(''sender'', Obj [(''id'', Str ''U1'')]), (''timestamp'', Num 1234567890),
                  (''message'', ?msg)]"
  let ?entryA = "Obj [(''messaging'', Arr [?ev])]"
  let ?throwing = "\<lambda>v. case v of Obj ps \<Rightarrow> Inl TypeError | _ \<Rightarrow> Inr v"
  have B: "(\<exists>pm. parseWebhookEvent Inr (Obj [(''entry'', Arr [?entryB])]) = Some pm
       \<and> senderId pm = Str ''U1'' \<and> messageId pm = Str ''m1'' \<and> messageText pm = Str ''hi'')"
    using parseWebhookEvent_extracts_fields
      [of "Obj [(''entry'', Arr [?entryB])]" ?entryB "[]" ?v "[]" ?ch "[]" "''U1''" "''m1''"
          "''hi''" Inr]
    by simp
  have B': "parseWebhookEvent ?throwing (Obj [(''entry'', Arr [?entryB'])]) = None"
    using parseWebhookEvent_extracts_fields
      [of "Obj [(''entry'', Arr [?entryB'])]" ?entryB' "[]" ?w "[]" ?ch' "[]" "''U1''" "''m1''"
          "''hi''" ?throwing]
    by simp
  have A: "(\<exists>pm. parseWebhookEvent_strict (Obj [(''entry'', Arr [?entryA])]) = Some pm
       \<and> senderId pm = Str ''U1'' \<and> messageId pm = Str ''m1'' \<and> messageText pm = Str ''hi'')"
    using parseWebhookEvent_extracts_fields
      [of "Obj [(''entry'', Arr [?entryA])]" ?entryA "[]" ?ev "[]" ?ch "[]" "''U1''" "''m1''"
          "''hi''" Inr]
    by simp
  show ?thesis using A B B' by blast
qed

theorem parseWebhookEvent_strict_changes_counterexample:
  "parseWebhookEvent_strict
     (Obj [(''entry'', Arr [Obj [(''changes'', Arr [Obj
        [(''field'', Str ''messages''),
         (''value'', Obj [(''sender'', Obj [(''id'', Str ''U1'')]),
                          (''message'', Obj [(''mid'', Str ''m1''), (''text'', Str ''hi'')])])]])]])])
   = None"
  by (simp add: parseWebhookEvent_strict_def parseWebhookEvent_strict_try_def bindE_def)

text \<open>
  C7, as amended. Take an envelope whose first messaging event carries a non-empty sender
  id and a message with a non-empty message id, and no timestamp. The parser of
  \<^verbatim>\<open>part_001\<close> returns a parsed message with these ids and an undefined timestamp. The
  parser of \<^verbatim>\<open>src/utils/messageParser.js\<close> requires the timestamp and returns null.
\<close>

theorem parseWebhookEvent_timestamp_optional:
  assumes entry: "member payload ''entry'' = Arr (entry # rest)"
    and messaging: "member entry ''messaging'' = Arr (ev # evs)"
    and sender: "member (member ev ''sender'') ''id'' = Str sid" "sid \<noteq> []"
    and mid: "member (member ev ''message'') ''mid'' = Str mid" "mid \<noteq> []"
    and ts: "member ev ''timestamp'' = Undefined"
  shows "(\<exists>pm. parseWebhookEvent parseInt payload = Some pm
              \<and> senderId pm = Str sid \<and> messageId pm = Str mid \<and> timestamp pm = Undefined)
         \<and> parseWebhookEvent_strict payload = None"
proof -
  have msg: "truthy (member ev ''message'')"
    using mid(1) member_member_Str_truthy by fastforce
  show ?thesis
    using msg sender mid ts
    by (simp add: parseWebhookEvent_entry [OF entry]
        parseWebhookEvent_strict_messaging [OF entry messaging]
        selectMessage_message [OF messaging msg])
qed

theorem parseWebhookEvent_timestamp_optional_witness:
  "(\<exists>pm. parseWebhookEvent Inr
           (Obj [(''entry'', Arr [Obj [(''messaging'', Arr [Obj
              [(''sender'', Obj [(''id'', Str ''SENDER_123'')]),
               (''message'', Obj [(''mid'', Str ''MSG_789''), (''text'', Str ''Hello'')])]])]])])
         = Some pm
       \<and> senderId pm = Str ''SENDER_123'' \<and> messageId pm = Str ''MSG_789''
       \<and> timestamp pm = Undefined)"
proof -
  let ?ev = "Obj [(''sender'', Obj [(''id'', Str ''SENDER_123'')]),
                  (''message'', Obj [(''mid'', Str ''MSG_789''), (''text'', Str ''Hello'')])]"
  let ?entry = "Obj [(''messaging'', Arr [?ev])]"
  show ?thesis
    using parseWebhookEvent_timestamp_optional
      [of "Obj [(''entry'', Arr [?entry])]" ?entry "[]" ?ev "[]" "''SENDER_123''" "''MSG_789''" Inr]
    by simp
qed

theorem parseWebhookEvent_strict_timestamp_counterexample:
  "parseWebhookEvent_strict
     (Obj [(''entry'', Arr [Obj [(''messaging'', Arr [Obj
        [(''sender'', Obj [(''id'', Str ''SENDER_123'')]),
         (''message'', Obj [(''mid'', Str ''MSG_789''), (''text'', Str ''Hello'')])]])]])])
   = None"
  by (simp add: parseWebhookEvent_strict_def parseWebhookEvent_strict_try_def bindE_def)

text \<open>
  C8, as amended. Take an envelope whose first messaging event carries no message, a
  non-empty sender id and a \<open>message_edit\<close> object with a non-empty message id. The parser of
  \<^verbatim>\<open>part_001\<close> returns the parsed message built from the edit, with the edited text as
  its text, and this is what it returns for any envelope whose first messaging event
  carries that same object as its \<open>message\<close>, with the same sender and timestamp. The
  parser of \<^verbatim>\<open>src/utils/messageParser.js\<close> has no such case and returns null.
\<close>

theorem parseWebhookEvent_message_edit:
  assumes entry: "member payload ''entry'' = Arr (entry # rest)"
    and messaging: "member entry ''messaging'' = Arr (ev # evs)"
    and nomsg: "\<not> truthy (member ev ''message'')"
    and edit: "member ev ''message_edit'' = edit"
    and sender: "member (member ev ''sender'') ''id'' = Str sid" "sid \<noteq> []"
    and mid: "member edit ''mid'' = Str mid" "mid \<noteq> []"
    and entry': "member payload' ''entry'' = Arr (entry' # rest')"
    and messaging': "member entry' ''messaging'' = Arr (ev' # evs')"
    and same: "member ev' ''message'' = edit" "member ev' ''sender'' = member ev ''sender''"
      "member ev' ''timestamp'' = member ev ''timestamp''"
  shows "parseWebhookEvent parseInt payload =
           Some \<lparr> senderId = Str sid,
                  messageText = js_or (member edit ''text'') Null,
                  hasAttachments = (isArray (member edit ''attachments'')
                                    \<and> arrayLength (member edit ''attachments'') > 0),
                  timestamp = member ev ''timestamp'',
                  messageId = Str mid \<rparr>
         \<and> parseWebhookEvent parseInt payload' = parseWebhookEvent parseInt payload
         \<and> parseWebhookEvent_strict payload = None"
proof -
  have ed: "truthy edit"
    using mid(1) member_Str_is_Obj by fastforce
  have ed': "truthy (member ev ''message_edit'')" "truthy (member ev' ''message'')"
    using ed edit same(1) by simp_all
  show ?thesis
    using nomsg edit sender mid same ed
    by (simp add: parseWebhookEvent_entry [OF entry] parseWebhookEvent_entry [OF entry']
        parseWebhookEvent_strict_messaging [OF entry messaging]
        selectMessage_message_edit [OF messaging nomsg ed'(1)]
        selectMessage_message [OF messaging' ed'(2)])
qed

theorem parseWebhookEvent_message_edit_witness:
  "parseWebhookEvent Inr
     (Obj [(''entry'', Arr [Obj [(''messaging'', Arr [Obj
        [(''sender'', Obj [(''id'', Str ''U1'')]),
         (''timestamp'', Num 1234567890),
         (''message_edit'', Obj [(''mid'', Str ''m1''), (''text'', Str ''hello again'')])]])]])])
   = Some \<lparr> senderId = Str ''U1'', messageText = Str ''hello again'', hasAttachments = False,
            timestamp = Num 1234567890, messageId = Str ''m1'' \<rparr>
   \<and> parseWebhookEvent Inr
     (Obj [(''entry'', Arr [Obj [(''messaging'', Arr [Obj
        [(''sender'', Obj [(''id'', Str ''U1'')]),
         (''timestamp'', Num 1234567890),
         (''message'', Obj [(''mid'', Str ''m1''), (''text'', Str ''hello again'')])]])]])])
   = Some \<lparr> senderId = Str ''U1'', messageText = Str ''hello again'', hasAttachments = False,
            timestamp = Num 1234567890, messageId = Str ''m1'' \<rparr>"
proof -
  let ?edit = "Obj [(''mid'', Str ''m1''), (''text'', Str ''hello again'')]"
  let ?ev = "Obj [(''sender'', Obj [(''id'', Str ''U1'')]), (''timestamp'', Num 1234567890),
                  (''message_edit'', ?edit)]"
  let ?ev' = "Obj [(''sender'', Obj [(''id'', Str ''U1'')]), (''timestamp'', Num 1234567890),
                   (''message'', ?edit)]"
  let ?entry = "Obj [(''messaging'', Arr [?ev])]"
  let ?entry' = "Obj [(''messaging'', Arr [?ev'])]"
  show ?thesis
    using parseWebhookEvent_message_edit
      [of "Obj [(''entry'', Arr [?entry])]" ?entry "[]" ?ev "[]" ?edit "''U1''" "''m1''"
          "Obj [(''entry'', Arr [?entry'])]" ?entry' "[]" ?ev' "[]" Inr]
    by (simp add: js_or_def)
qed

theorem parseWebhookEvent_strict_message_edit_counterexample:
  "parseWebhookEvent_strict
     (Obj [(''entry'', Arr [Obj [(''messaging'', Arr [Obj
        [(''sender'', Obj [(''id'', Str ''U1'')]),
         (''timestamp'', Num 1234567890),
         (''message_edit'', Obj [(''mid'', Str ''m1''), (''text'', Str ''hello again'')])]])]])])
   = None"
  by (simp add: parseWebhookEvent_strict_def parseWebhookEvent_strict_try_def bindE_def)

text \<open>
  C10. Take an envelope that parses successfully and whose message, the object the parser
  reads the text from, carries the empty string as its text. The parsed message has a null
  text, under either parser, so \<open>shouldReplyToMessage\<close> rejects it on the text rule.
\<close>

theorem parseWebhookEvent_empty_text:
  assumes entry: "member payload ''entry'' = Arr (entry # rest)"
    and carried:
      "(member entry ''messaging'' = Arr (ev # evs)
          \<and> (if truthy (member ev ''message'') then m = member ev ''message''
              else m = member ev ''message_edit''))
       \<or> (arrayLength (member entry ''messaging'') = 0
          \<and> member entry ''changes'' = Arr (ch # chs)
          \<and> m = member (member ch ''value'') ''message'')"
    and empty: "member m ''text'' = Str []"
    and parsed: "parseWebhookEvent parseInt payload = Some pm
                 \<or> parseWebhookEvent_strict payload = Some pm"
  shows "messageText pm = Null
         \<and> shouldReplyToMessage (Some pm) selfId =
             (False, [Log DEBUG ''Filtering message: messageText is null'' None (idContext pm)])"
proof -
  have mT: "truthy m" using empty member_Str_is_Obj by fastforce
  have "messageText pm = Null"
  proof (cases "member entry ''messaging'' = Arr (ev # evs)")
    case True
    show ?thesis
    proof (cases "truthy (member ev ''message'')")
      case msg: True
      then have "m = member ev ''message''" using carried True by auto
      then show ?thesis
        using parsed empty msg
        by (auto simp: parseWebhookEvent_entry [OF entry]
            parseWebhookEvent_strict_messaging [OF entry True]
            selectMessage_message [OF True msg] js_or_def split: if_splits)
    next
      case nomsg: False
      then have m: "m = member ev ''message_edit''" using carried True by auto
      then have "truthy (member ev ''message_edit'')" using mT by simp
      then show ?thesis
        using parsed empty nomsg m
        by (auto simp: parseWebhookEvent_entry [OF entry]
            parseWebhookEvent_strict_messaging [OF entry True]
            selectMessage_message_edit [OF True nomsg] js_or_def split: if_splits)
    qed
  next
    case False
    with carried have B: "arrayLength (member entry ''messaging'') = 0"
      "member entry ''changes'' = Arr (ch # chs)" "m = member (member ch ''value'') ''message''"
      by auto
    have strict: "parseWebhookEvent_strict payload = None"
      using parseWebhookEvent_strict_no_messaging [OF entry B(1)] .
    have v: "truthy (member ch ''value'')"
      using mT B(3) by (cases "member ch ''value''") auto
    show ?thesis
    proof (cases "member ch ''field'' = Str ''messages''")
      case f: True
      show ?thesis
        using parsed empty strict B(3)
        by (auto simp: parseWebhookEvent_entry [OF entry]
            selectMessage_changes [OF B(1) B(2) f v] js_or_def split: if_splits sum.splits)
    next
      case f: False
      show ?thesis
        using parsed strict
        by (simp add: parseWebhookEvent_entry [OF entry]
            selectMessage_other_field [OF B(1) B(2) f v])
    qed
  qed
  then show ?thesis
    by (simp add: shouldReplyToMessage_def)
qed

theorem parseWebhookEvent_empty_text_witness:
  "shouldReplyToMessage
     (Some \<lparr> senderId = Str ''U1'', messageText = Null, hasAttachments = False,
             timestamp = Num 1234567890, messageId = Str ''m1'' \<rparr>) ''bot''
   = (False, [Log DEBUG ''Filtering message: messageText is null'' None
                [(''messageId'', Str ''m1''), (''senderId'', Str ''U1'')]])"
proof -
  let ?msg = "Obj [(''mid'', Str ''m1''), (''text'', Str [])]"
  let ?ev = "Obj [(''sender'', Obj [(''id'', Str ''U1'')]), (''timestamp'', Num 1234567890),
                  (''message'', ?msg)]"
  let ?entry = "Obj [(''messaging'', Arr [?ev])]"
  let ?pm = "\<lparr> senderId = Str ''U1'', messageText = Null, hasAttachments = False,
               timestamp = Num 1234567890, messageId = Str ''m1'' \<rparr>"
  have p: "parseWebhookEvent Inr (Obj [(''entry'', Arr [?entry])]) = Some ?pm"
    by (simp add: parseWebhookEvent_def parseWebhookEvent_try_def selectMessage_def
        buildParsed_def bindE_def js_or_def)
  show ?thesis
    using p parseWebhookEvent_empty_text
      [of "Obj [(''entry'', Arr [?entry])]" ?entry "[]" ?ev "[]" ?msg ?ev "[]" Inr ?pm "''bot''"]
    by (simp add: idContext_def)
qed

section \<open>The orchestrator\<close>

lemma processWebhookEvent_caught:
  "fst (processWebhookEvent parse gen send selfId payload) = Inr ()"
  by (simp add: processWebhookEvent_def split: prod.splits sum.splits)

lemma processWebhookEvent_logged:
  assumes "fst (processWebhookEvent_try parse gen send selfId payload) = Inl e"
  shows "\<exists>mid sid. last (snd (processWebhookEvent parse gen send selfId payload)) =
           Log ERROR ''Error processing message'' (Some e)
             [(''messageId'', mid), (''senderId'', sid)]"
  using assms by (auto simp: processWebhookEvent_def split: prod.splits sum.splits)

text \<open>The \<open>try\<close> block when the parser, the generator or the delivery client throws.\<close>

lemma try_parse_throws:
  "parse payload = Inl e \<Longrightarrow>
   processWebhookEvent_try parse gen send selfId payload =
     (Inl e, (Str ''unknown'', Str ''unknown''),
      [Log DEBUG ''Received webhook event'' None [(''payload'', payload)]])"
  by (simp add: processWebhookEvent_try_def)

lemma try_generate_throws:
  assumes "parse payload = Inr (Some pm)" and "fst (shouldReplyToMessage (Some pm) selfId)"
    and "gen (messageText pm) = Inl e"
  shows "processWebhookEvent_try parse gen send selfId payload =
     (Inl e, (messageId pm, senderId pm),
      [Log DEBUG ''Received webhook event'' None [(''payload'', payload)],
       Log DEBUG ''Parsed message successfully'' None
         (idContext pm @ [(''messageText'', messageText pm)]),
       Log DEBUG ''Message passed all filters, will reply'' None (idContext pm),
       Log DEBUG ''Message passed filters'' None (idContext pm),
       Generate (messageText pm)])"
  using assms
  by (simp add: processWebhookEvent_try_def Let_def shouldReplyToMessage_def split: if_splits)

lemma try_send_throws:
  assumes "parse payload = Inr (Some pm)" and "fst (shouldReplyToMessage (Some pm) selfId)"
    and "gen (messageText pm) = Inr reply" and "getp reply ''length'' = Inr len"
    and "send (senderId pm) reply = Inl e"
  shows "fst (processWebhookEvent_try parse gen send selfId payload) = Inl e
    \<and> fst (snd (processWebhookEvent_try parse gen send selfId payload)) = (messageId pm, senderId pm)"
  using assms
  by (simp add: processWebhookEvent_try_def Let_def)

text \<open>
  C2. Whatever the payload and whatever the parser, the reply generator and the delivery
  client do, \<open>processWebhookEvent\<close> completes normally. Every exception thrown inside the
  \<open>try\<close> block ends as the last logger call, at error level, whether the parser, the
  generator or the delivery client threw it.
\<close>

theorem processWebhookEvent_never_throws:
  "fst (processWebhookEvent parse gen send selfId payload) = Inr ()
   \<and> (\<forall>e. fst (processWebhookEvent_try parse gen send selfId payload) = Inl e \<longrightarrow>
        (\<exists>mid sid. last (snd (processWebhookEvent parse gen send selfId payload)) =
           Log ERROR ''Error processing message'' (Some e)
             [(''messageId'', mid), (''senderId'', sid)]))
   \<and> (\<forall>e. parse payload = Inl e \<longrightarrow>
        last (snd (processWebhookEvent parse gen send selfId payload)) =
          Log ERROR ''Error processing message'' (Some e)
            [(''messageId'', Str ''unknown''), (''senderId'', Str ''unknown'')])
   \<and> (\<forall>e pm. parse payload = Inr (Some pm) \<and> fst (shouldReplyToMessage (Some pm) selfId)
          \<and> gen (messageText pm) = Inl e \<longrightarrow>
        last (snd (processWebhookEvent parse gen send selfId payload)) =
          Log ERROR ''Error processing message'' (Some e) (idContext pm))
   \<and> (\<forall>e pm reply len. parse payload = Inr (Some pm)
          \<and> fst (shouldReplyToMessage (Some pm) selfId)
          \<and> gen (messageText pm) = Inr reply \<and> getp reply ''length'' = Inr len
          \<and> send (senderId pm) reply = Inl e \<longrightarrow>
        last (snd (processWebhookEvent parse gen send selfId payload)) =
          Log ERROR ''Error processing message'' (Some e) (idContext pm))"
proof (intro conjI allI impI)
  show "fst (processWebhookEvent parse gen send selfId payload) = Inr ()"
    by (rule processWebhookEvent_caught)
next
  fix e assume "fst (processWebhookEvent_try parse gen send selfId payload) = Inl e"
  then show "\<exists>mid sid. last (snd (processWebhookEvent parse gen send selfId payload)) =
           Log ERROR ''Error processing message'' (Some e)
             [(''messageId'', mid), (''senderId'', sid)]"
    by (rule processWebhookEvent_logged)
next
  fix e assume "parse payload = Inl e"
  then show "last (snd (processWebhookEvent parse gen send selfId payload)) =
          Log ERROR ''Error processing message'' (Some e)
            [(''messageId'', Str ''unknown''), (''senderId'', Str ''unknown'')]"
    by (simp add: processWebhookEvent_def try_parse_throws)
next
  fix e pm
  assume "parse payload = Inr (Some pm) \<and> fst (shouldReplyToMessage (Some pm) selfId)
          \<and> gen (messageText pm) = Inl e"
  then show "last (snd (processWebhookEvent parse gen send selfId payload)) =
          Log ERROR ''Error processing message'' (Some e) (idContext pm)"
    by (simp add: processWebhookEvent_def try_generate_throws idContext_def)
next
  fix e pm reply len
  assume a: "parse payload = Inr (Some pm) \<and> fst (shouldReplyToMessage (Some pm) selfId)
          \<and> gen (messageText pm) = Inr reply \<and> getp reply ''length'' = Inr len
          \<and> send (senderId pm) reply = Inl e"
  have "fst (processWebhookEvent_try parse gen send selfId payload) = Inl e
    \<and> fst (snd (processWebhookEvent_try parse gen send selfId payload)) = (messageId pm, senderId pm)"
    using a try_send_throws [of parse payload pm selfId gen reply len send e] by blast
  then show "last (snd (processWebhookEvent parse gen send selfId payload)) =
          Log ERROR ''Error processing message'' (Some e) (idContext pm)"
    by (auto simp: processWebhookEvent_def idContext_def split: prod.splits sum.splits)
qed

theorem processWebhookEvent_never_throws_witness:
  "fst (processWebhookEvent (\<lambda>p. Inl TypeError) (\<lambda>t. Inr (Str ''heyy whats up''))
          (\<lambda>r t. Inr (Obj [(''success'', Bool True)])) ''bot_123'' Null) = Inr ()
   \<and> last (snd (processWebhookEvent (\<lambda>p. Inl TypeError) (\<lambda>t. Inr (Str ''heyy whats up''))
          (\<lambda>r t. Inr (Obj [(''success'', Bool True)])) ''bot_123'' Null))
     = Log ERROR ''Error processing message'' (Some TypeError)
         [(''messageId'', Str ''unknown''), (''senderId'', Str ''unknown'')]
   \<and> last (snd (processWebhookEvent
          (\<lambda>p. Inr (Some \<lparr> senderId = Str ''U1'', messageText = Str ''hi'',
                            hasAttachments = False, timestamp = Num 1234567890,
                            messageId = Str ''m1'' \<rparr>))
          (\<lambda>t. Inr (Str ''heyy whats up''))
          (\<lambda>r t. Inl (Error ''socket hang up'')) ''bot_123'' Null))
     = Log ERROR ''Error processing message'' (Some (Error ''socket hang up''))
         [(''messageId'', Str ''m1''), (''senderId'', Str ''U1'')]"
proof -
  let ?pm = "\<lparr> senderId = Str ''U1'', messageText = Str ''hi'', hasAttachments = False,
               timestamp = Num 1234567890, messageId = Str ''m1'' \<rparr>"
  have pass: "fst (shouldReplyToMessage (Some ?pm) ''bot_123'')"
    by (simp add: shouldReplyToMessage_def)
  show ?thesis
    using pass
      processWebhookEvent_never_throws [of "\<lambda>p. Inl TypeError" "\<lambda>t. Inr (Str ''heyy whats up'')"
        "\<lambda>r t. Inr (Obj [(''success'', Bool True)])" "''bot_123''" Null]
      processWebhookEvent_never_throws [of "\<lambda>p. Inr (Some ?pm)" "\<lambda>t. Inr (Str ''heyy whats up'')"
        "\<lambda>r t. Inl (Error ''socket hang up'')" "''bot_123''" Null]
    by (simp add: idContext_def)
qed

text \<open>
  C5. When the event parses, passes the filter and the reply generator throws, the trace
  of \<open>processWebhookEvent\<close> ends with the logger call at error level that carries the
  message id and the sender id, and the delivery client is not called: the trace holds
  no \<open>Send\<close>.
\<close>

theorem generator_failure_stops_pipeline:
  assumes "parse payload = Inr (Some pm)" and "fst (shouldReplyToMessage (Some pm) selfId)"
    and "gen (messageText pm) = Inl e"
  shows "processWebhookEvent parse gen send selfId payload =
     (Inr (),
      [Log DEBUG ''Received webhook event'' None [(''payload'', payload)],
       Log DEBUG ''Parsed message successfully'' None
         (idContext pm @ [(''messageText'', messageText pm)]),
       Log DEBUG ''Message passed all filters, will reply'' None (idContext pm),
       Log DEBUG ''Message passed filters'' None (idContext pm),
       Generate (messageText pm),
       Log ERROR ''Error processing message'' (Some e) (idContext pm)])
     \<and> (\<forall>recipient reply.
           Send recipient reply \<notin> set (snd (processWebhookEvent parse gen send selfId payload)))"
  using assms
  by (simp add: processWebhookEvent_def try_generate_throws idContext_def)

theorem generator_failure_stops_pipeline_witness:
  "\<forall>recipient reply.
     Send recipient reply \<notin> set (snd (processWebhookEvent
       (\<lambda>p. Inr (Some \<lparr> senderId = Str ''U1'', messageText = Str ''hi'',
                         hasAttachments = False, timestamp = Num 1234567890,
                         messageId = Str ''m1'' \<rparr>))
       (\<lambda>t. Inl (Error ''Failed to generate AI response''))
       (\<lambda>r t. Inr (Obj [(''success'', Bool True)])) ''bot_123'' Null))"
proof -
  let ?pm = "\<lparr> senderId = Str ''U1'', messageText = Str ''hi'', hasAttachments = False,
               timestamp = Num 1234567890, messageId = Str ''m1'' \<rparr>"
  have pass: "fst (shouldReplyToMessage (Some ?pm) ''bot_123'')"
    by (simp add: shouldReplyToMessage_def)
  show ?thesis
    using generator_failure_stops_pipeline [of "\<lambda>p. Inr (Some ?pm)" Null ?pm "''bot_123''"
        "\<lambda>t. Inl (Error ''Failed to generate AI response'')"
        "Error ''Failed to generate AI response''"
        "\<lambda>r t. Inr (Obj [(''success'', Bool True)])", OF _ pass]
    by simp
qed

section \<open>The delivery client\<close>

text \<open>The loop runs at most twice.\<close>

lemma sendMessage_loop_unrolled:
  "sendMessage_loop post 0 0 =
     (case attemptSend (post 0) of
        Inr mid \<Rightarrow> (Inr (Obj [(''success'', Bool True), (''messageId'', mid)]), 1)
      | Inl None \<Rightarrow> (Inl TypeError, 1)
      | Inl (Some err) \<Rightarrow>
          if isNetworkError err then
            (case attemptSend (post 1) of
               Inr mid \<Rightarrow> (Inr (Obj [(''success'', Bool True), (''messageId'', mid)]), 2)
             | Inl None \<Rightarrow> (Inl TypeError, 2)
             | Inl (Some err') \<Rightarrow>
                 (Inr (Obj [(''success'', Bool False), (''error'', errorMessage err')]), 2))
          else (Inr (Obj [(''success'', Bool False), (''error'', errorMessage err)]), 1))"
  apply (subst sendMessage_loop.simps)
  apply (subst sendMessage_loop.simps)
  apply (subst sendMessage_loop.simps)
  apply (simp add: maxRetries_def split: sum.splits option.splits)
  done

lemma attemptSend_contract:
  "axiosContract outcome \<Longrightarrow> attemptSend outcome \<noteq> Inl None"
  by (auto simp: axiosContract_def attemptSend_def split: attempt.splits option.splits sum.splits)

lemma contract_4xx_not_network:
  "axiosContract (Rejected (Some err)) \<Longrightarrow> is4xxError err \<Longrightarrow> \<not> isNetworkError err"
  by (auto simp: axiosContract_def is4xxError_def isNetworkError_def split: option.splits)

text \<open>
  C4. Let every rejection of \<open>axios.post\<close> be an error object that carries a timeout
  code only when it carries no response. Then \<open>sendMessage\<close> does not throw: it returns an
  outcome object whose \<open>success\<close> is a boolean, after one or two calls. When every call
  fails with no response, or with the code ECONNABORTED or ETIMEDOUT, it makes exactly two
  calls and returns a failure. When the first call fails with a 4xx response, it makes
  exactly one call and returns a failure. The assumption on the rejections is used through
  \<open>attemptSend_contract\<close> and \<open>contract_4xx_not_network\<close> only: without it, a null
  rejection escapes from the \<open>catch\<close> clause, and an error with both a 4xx response and a
  timeout code is retried.
\<close>

theorem sendMessage_retry_policy:
  assumes contract: "\<forall>k. axiosContract (post recipientId txt k)"
  shows "(\<exists>out n. sendMessage post recipientId txt = (Inr out, n) \<and> (n = 1 \<or> n = 2)
            \<and> (member out ''success'' = Bool True \<or> member out ''success'' = Bool False))
   \<and> ((\<forall>k. \<exists>err. post recipientId txt k = Rejected (Some err)
            \<and> (response err = None \<or> code err = Str ''ECONNABORTED''
                \<or> code err = Str ''ETIMEDOUT'')) \<longrightarrow>
        (\<exists>out. sendMessage post recipientId txt = (Inr out, 2)
           \<and> member out ''success'' = Bool False))
   \<and> ((\<exists>err. post recipientId txt 0 = Rejected (Some err) \<and> is4xxError err) \<longrightarrow>
        (\<exists>out. sendMessage post recipientId txt = (Inr out, 1)
           \<and> member out ''success'' = Bool False))"
proof (intro conjI impI)
  have c0: "attemptSend (post recipientId txt 0) \<noteq> Inl None"
    and c1: "attemptSend (post recipientId txt 1) \<noteq> Inl None"
    using contract attemptSend_contract by blast+
  show "\<exists>out n. sendMessage post recipientId txt = (Inr out, n) \<and> (n = 1 \<or> n = 2)
       \<and> (member out ''success'' = Bool True \<or> member out ''success'' = Bool False)"
    using c0 c1
    by (simp add: sendMessage_def sendMessage_loop_unrolled split: sum.splits option.splits)
next
  assume a: "\<forall>k. \<exists>err. post recipientId txt k = Rejected (Some err)
            \<and> (response err = None \<or> code err = Str ''ECONNABORTED''
                \<or> code err = Str ''ETIMEDOUT'')"
  obtain e0 where e0: "post recipientId txt 0 = Rejected (Some e0)" "isNetworkError e0"
    using a unfolding isNetworkError_def by blast
  obtain e1 where e1: "post recipientId txt 1 = Rejected (Some e1)"
    using a by blast
  show "\<exists>out. sendMessage post recipientId txt = (Inr out, 2)
           \<and> member out ''success'' = Bool False"
    using e0 e1 by (simp add: sendMessage_def sendMessage_loop_unrolled attemptSend_def)
next
  assume "\<exists>err. post recipientId txt 0 = Rejected (Some err) \<and> is4xxError err"
  then obtain err where e: "post recipientId txt 0 = Rejected (Some err)" "is4xxError err"
    by blast
  have "axiosContract (Rejected (Some err))"
    using contract e(1) by metis
  then have "\<not> isNetworkError err"
    using e(2) contract_4xx_not_network by blast
  then show "\<exists>out. sendMessage post recipientId txt = (Inr out, 1)
           \<and> member out ''success'' = Bool False"
    using e by (simp add: sendMessage_def sendMessage_loop_unrolled attemptSend_def)
qed

theorem sendMessage_retry_policy_witness:
  "(\<exists>out. sendMessage
          (mockRejectedValue \<lparr> response = None, code = Str ''ECONNABORTED'',
                               message = Str ''Connection aborted'' \<rparr>)
          (Str ''user_123'') (Str ''Test'') = (Inr out, 2)
       \<and> member out ''success'' = Bool False)
   \<and> (\<exists>out. sendMessage
          (mockRejectedValue
             \<lparr> response = Some \<lparr> status = 400, statusText = Str ''Bad Request'',
                  data = Obj [(''error'', Obj [(''message'', Str ''Invalid recipient ID'')])] \<rparr>,
               code = Undefined, message = Undefined \<rparr>)
          (Str ''invalid_id'') (Str ''Hello!'') = (Inr out, 1)
       \<and> member out ''success'' = Bool False)"
proof -
  let ?network = "\<lparr> response = None, code = Str ''ECONNABORTED'',
                     message = Str ''Connection aborted'' \<rparr>"
  let ?client = "\<lparr> response = Some \<lparr> status = 400, statusText = Str ''Bad Request'',
                     data = Obj [(''error'', Obj [(''message'', Str ''Invalid recipient ID'')])] \<rparr>,
                   code = Undefined, message = Undefined \<rparr>"
  have c1: "\<forall>k. axiosContract (mockRejectedValue ?network (Str ''user_123'') (Str ''Test'') k)"
    by (simp add: axiosContract_def mockRejectedValue_def)
  have c2: "\<forall>k. axiosContract (mockRejectedValue ?client (Str ''invalid_id'') (Str ''Hello!'') k)"
    by (simp add: axiosContract_def mockRejectedValue_def)
  show ?thesis
    using sendMessage_retry_policy
        [of "mockRejectedValue ?network" "Str ''user_123''" "Str ''Test''", OF c1]
      sendMessage_retry_policy
        [of "mockRejectedValue ?client" "Str ''invalid_id''" "Str ''Hello!''", OF c2]
    by (simp add: mockRejectedValue_def is4xxError_def)
qed

end
